theory Spec2Isabelle
  imports Main
begin

section \<open>Python values, exceptions and outcomes\<close>

text \<open>
  The values that cross the runner's interface: the parsed request, the parameters handed
  to the entry operation, the value it returns and the result envelope. A Python dict with
  string keys is an association list in insertion order. \<open>PSet\<close> and \<open>PObject\<close> stand for
  values that \<open>json.dumps\<close> refuses (a set, an arbitrary instance). Floats are left out.
\<close>

datatype pyval =
    PNone
  | PBool bool
  | PInt int
  | PStr string
  | PList "pyval list"
  | PDict "(string \<times> pyval) list"
  | PSet "pyval list"
  | PObject string

text \<open>
  Exceptions are classified by the \<open>except\<close> clause that catches them, and carry \<open>str(e)\<close>.
  \<open>TimeoutError\<close> is the class declared in \<open>runner.py\<close> (it shadows the built-in of the
  same name), \<open>Exception\<close> is any other subclass of \<open>Exception\<close>, and \<open>BaseException\<close> is
  an exception outside \<open>Exception\<close>, which no clause of the runner catches.
\<close>

datatype pyexc =
    TimeoutError string
  | MemoryError string
  | Exception string
  | BaseException string

datatype 'a outcome = Returns 'a | Raises pyexc

fun str_exc :: "pyexc \<Rightarrow> string" where
  "str_exc (TimeoutError m) = m"
| "str_exc (MemoryError m) = m"
| "str_exc (Exception m) = m"
| "str_exc (BaseException m) = m"

section \<open>Observable effects\<close>

text \<open>
  The process is modelled by the log of the effects it has on its surroundings, oldest
  first. A \<open>Setrlimit\<close> entry is a limit the platform accepted; \<open>Print\<close> is a call of the
  built-in \<open>print\<close> by submitted code and \<open>PrintJson v\<close> is \<open>print(json.dumps(v))\<close> by the
  runner, both on standard output.
\<close>

datatype rlimit = RLIMIT_AS | RLIMIT_CPU

datatype event =
    Setrlimit rlimit nat nat
  | SignalHandler
  | Alarm nat
  | Compile string
  | Exec
  | CallTools
  | CallRun pyval
  | Print "pyval list"
  | PrintJson pyval

fun is_stdout :: "event \<Rightarrow> bool" where
  "is_stdout (Print _) = True"
| "is_stdout (PrintJson _) = True"
| "is_stdout _ = False"

definition stdout :: "event list \<Rightarrow> event list" where
  "stdout tr = filter is_stdout tr"

type_synonym 'a eff = "event list \<Rightarrow> 'a outcome \<times> event list"

text \<open>Sequencing of two effectful steps: an exception of the first skips the second.\<close>

definition and_then :: "'a outcome \<times> event list \<Rightarrow> ('a \<Rightarrow> 'b eff) \<Rightarrow> 'b outcome \<times> event list" where
  "and_then r k = (case r of (Returns a, tr) \<Rightarrow> k a tr | (Raises e, tr) \<Rightarrow> (Raises e, tr))"

section \<open>The capability set\<close>

text \<open>The built-in objects of the interpreter that \<open>create_safe_globals\<close> hands out.\<close>

datatype builtin =
    Py_len | Py_str | Py_int | Py_float | Py_bool | Py_list | Py_dict | Py_tuple | Py_set
  | Py_range | Py_enumerate | Py_zip | Py_map | Py_filter | Py_sorted | Py_sum | Py_min
  | Py_max | Py_abs | Py_round | Py_print

text \<open>The name each built-in object carries in the interpreter.\<close>

fun builtin_name :: "builtin \<Rightarrow> string" where
  "builtin_name Py_len = ''len''"
| "builtin_name Py_str = ''str''"
| "builtin_name Py_int = ''int''"
| "builtin_name Py_float = ''float''"
| "builtin_name Py_bool = ''bool''"
| "builtin_name Py_list = ''list''"
| "builtin_name Py_dict = ''dict''"
| "builtin_name Py_tuple = ''tuple''"
| "builtin_name Py_set = ''set''"
| "builtin_name Py_range = ''range''"
| "builtin_name Py_enumerate = ''enumerate''"
| "builtin_name Py_zip = ''zip''"
| "builtin_name Py_map = ''map''"
| "builtin_name Py_filter = ''filter''"
| "builtin_name Py_sorted = ''sorted''"
| "builtin_name Py_sum = ''sum''"
| "builtin_name Py_min = ''min''"
| "builtin_name Py_max = ''max''"
| "builtin_name Py_abs = ''abs''"
| "builtin_name Py_round = ''round''"
| "builtin_name Py_print = ''print''"

text \<open>\<open>create_safe_globals\<close>, entry by entry in the order of the source (lines 34 to 59).\<close>

definition create_safe_globals :: "(string \<times> (string \<times> builtin) list) list" where
  "create_safe_globals =
     [(''__builtins__'',
        [(''len'', Py_len),
         (''str'', Py_str),
         (''int'', Py_int),
         (''float'', Py_float),
         (''bool'', Py_bool),
         (''list'', Py_list),
         (''dict'', Py_dict),
         (''tuple'', Py_tuple),
         (''set'', Py_set),
         (''range'', Py_range),
         (''enumerate'', Py_enumerate),
         (''zip'', Py_zip),
         (''map'', Py_map),
         (''filter'', Py_filter),
         (''sorted'', Py_sorted),
         (''sum'', Py_sum),
         (''min'', Py_max),
         (''max'', Py_max),
         (''abs'', Py_abs),
         (''round'', Py_round),
         (''print'', Py_print)])]"

text \<open>The built-ins that code executed with these globals sees.\<close>

definition builtins_of :: "(string \<times> (string \<times> builtin) list) list \<Rightarrow> (string \<times> builtin) list" where
  "builtins_of g = (case map_of g ''__builtins__'' of Some bs \<Rightarrow> bs | None \<Rightarrow> [])"

section \<open>Submitted code and the platform\<close>

text \<open>
  Faults that the interpreter and its library raise by themselves, all of them subclasses
  of \<open>Exception\<close>: a name that is not bound, the \<open>TypeError\<close>s of a call
  \<open>f(**params)\<close>, a missing key, a subscript the value does not support, a value
  \<open>json.dumps\<close> cannot encode, and a first argument of \<open>exec\<close> that is neither a
  string nor bytes nor a code object.
\<close>

datatype fault =
    NameNotDefined string
  | NotAMapping
  | NotCallable
  | UnexpectedKeyword string
  | MultipleValues string
  | MissingArgument string
  | KeyMissing string
  | BadSubscript
  | NotSerializable
  | ExecArgument

text \<open>
  Submitted code is opaque to the runner. Its behaviour is a tree: it finishes with a value
  or an exception, it is unwound by the alarm signal (\<open>Interrupted\<close>: it would have run on,
  as an unbounded loop does), or it calls one of the names of its built-ins and goes on
  with what the call gives.
\<close>

datatype 'r ucode =
    Finish "'r outcome"
  | Interrupted
  | CallBuiltin string "pyval list" "pyval outcome \<Rightarrow> 'r ucode"

text \<open>
  What the attribute \<open>run\<close> of the instance is: a function with the name of its first
  parameter (bound to the instance), the names of its other parameters, those among them
  without a default, whether it has a \<open>**\<close> parameter, and its body; or something that
  cannot be called.
\<close>

datatype runattr =
    Method string "string list" "string list" bool "(string \<times> pyval) list \<Rightarrow> pyval ucode"
  | Uncallable

text \<open>The instance that \<open>Tools()\<close> gives: its attribute \<open>run\<close>, if it has one.\<close>

datatype tools_instance = Instance "runattr option"

text \<open>The module namespace after \<open>exec\<close>: what calling its attribute \<open>Tools\<close> does, if it has one.\<close>

datatype namespace = Namespace "tools_instance ucode option"

text \<open>
  What the call of \<open>compile_restricted_exec\<close> can hand back, as far as line 80 and
  \<open>exec\<close> tell values apart: \<open>None\<close>, a code object (with the behaviour of its code), or
  the \<open>CompileResult\<close> tuple \<open>(code, errors, warnings, used_names)\<close>. The library
  RestrictedPython returns the tuple for every source, accepted or not; the runner never
  reads its fields, which are left out.
\<close>

datatype compiled = NoneValue | CodeObject "namespace ucode" | CompileResult

text \<open>
  The parts of the surroundings that live outside the repository, taken as parameters:
  whether the operating system accepts a limit, what \<open>compile_restricted_exec\<close> gives,
  the built-ins that are not interpreted below, the text of the interpreter's own error
  messages, and \<open>base64.b64decode(x).decode('utf-8')\<close>.
\<close>

record platform =
  os_setrlimit :: "rlimit \<Rightarrow> nat \<Rightarrow> nat \<Rightarrow> unit outcome"
  compile_restricted_exec :: "string \<Rightarrow> compiled outcome"
  pure_builtin :: "builtin \<Rightarrow> pyval list \<Rightarrow> pyval outcome"
  fault_text :: "fault \<Rightarrow> string"
  b64decode_utf8 :: "pyval \<Rightarrow> string outcome"

subsection \<open>Calling a built-in\<close>

fun ints_of :: "pyval list \<Rightarrow> int list option" where
  "ints_of [] = Some []"
| "ints_of (PInt i # vs) = (case ints_of vs of Some js \<Rightarrow> Some (i # js) | None \<Rightarrow> None)"
| "ints_of (_ # vs) = None"

text \<open>
  \<open>max\<close> and \<open>min\<close> are interpreted on one argument that is a non-empty list of
  integers; every other use is left to the platform.
\<close>

definition py_max :: "platform \<Rightarrow> pyval list \<Rightarrow> pyval outcome" where
  "py_max pf args =
     (case args of
        [PList xs] \<Rightarrow>
          (case ints_of xs of
             Some (i # js) \<Rightarrow> Returns (PInt (fold max js i))
           | _ \<Rightarrow> pure_builtin pf Py_max args)
      | _ \<Rightarrow> pure_builtin pf Py_max args)"

definition py_min :: "platform \<Rightarrow> pyval list \<Rightarrow> pyval outcome" where
  "py_min pf args =
     (case args of
        [PList xs] \<Rightarrow>
          (case ints_of xs of
             Some (i # js) \<Rightarrow> Returns (PInt (fold min js i))
           | _ \<Rightarrow> pure_builtin pf Py_min args)
      | _ \<Rightarrow> pure_builtin pf Py_min args)"

text \<open>\<open>print\<close> writes its arguments to standard output and returns \<open>None\<close>.\<close>

fun call_builtin :: "platform \<Rightarrow> builtin \<Rightarrow> pyval list \<Rightarrow> pyval eff" where
  "call_builtin pf Py_print args tr = (Returns PNone, tr @ [Print args])"
| "call_builtin pf Py_max args tr = (py_max pf args, tr)"
| "call_builtin pf Py_min args tr = (py_min pf args, tr)"
| "call_builtin pf b args tr = (pure_builtin pf b args, tr)"

subsection \<open>Running submitted code\<close>

text \<open>Lines 20 and 21: the handler of the alarm signal.\<close>

definition timeout_handler :: "'a outcome" where
  "timeout_handler = Raises (TimeoutError ''Execution timeout'')"

text \<open>
  Submitted code runs with the built-ins \<open>bs\<close>. A name outside them is a \<open>NameError\<close>
  raised inside the code; the alarm signal runs \<open>timeout_handler\<close>, whose exception
  unwinds the code.
\<close>

primrec run_ucode :: "platform \<Rightarrow> (string \<times> builtin) list \<Rightarrow> 'r ucode \<Rightarrow> 'r eff" where
  "run_ucode pf bs (Finish r) = (\<lambda>tr. (r, tr))"
| "run_ucode pf bs Interrupted = (\<lambda>tr. (timeout_handler, tr))"
| "run_ucode pf bs (CallBuiltin name args k) =
     (\<lambda>tr. case map_of bs name of
        None \<Rightarrow> run_ucode pf bs (k (Raises (Exception (fault_text pf (NameNotDefined name))))) tr
      | Some b \<Rightarrow> (case call_builtin pf b args tr of (r, tr') \<Rightarrow> run_ucode pf bs (k r) tr'))"

text \<open>
  The call \<open>f(**params)\<close> of line 95: \<open>params\<close> must be a mapping, \<open>f\<close> must be callable,
  every key must be a parameter of \<open>f\<close> other than the one already bound to the instance
  (or \<open>f\<close> must take \<open>**\<close>), and every parameter without a default must be given. Each
  failure is a \<open>TypeError\<close>, a subclass of \<open>Exception\<close>.
\<close>

definition keyword_fault :: "string \<Rightarrow> string list \<Rightarrow> bool \<Rightarrow> string \<Rightarrow> fault option" where
  "keyword_fault self names var_kw k =
     (if k = self then Some (MultipleValues k)
      else if k \<in> set names \<or> var_kw then None
      else Some (UnexpectedKeyword k))"

fun call_expanded :: "platform \<Rightarrow> runattr \<Rightarrow> pyval \<Rightarrow> pyval ucode" where
  "call_expanded pf f (PDict kw) =
     (case f of
        Uncallable \<Rightarrow> Finish (Raises (Exception (fault_text pf NotCallable)))
      | Method self names required var_kw body \<Rightarrow>
          (case List.map_filter (keyword_fault self names var_kw) (map fst kw) of
             flt # _ \<Rightarrow> Finish (Raises (Exception (fault_text pf flt)))
           | [] \<Rightarrow>
               (case filter (\<lambda>r. r \<notin> set (map fst kw)) required of
                  r # _ \<Rightarrow> Finish (Raises (Exception (fault_text pf (MissingArgument r))))
                | [] \<Rightarrow> body kw)))"
| "call_expanded pf f _ = Finish (Raises (Exception (fault_text pf NotAMapping)))"

section \<open>The runner\<close>

text \<open>Lines 24 to 29. A limit the platform refuses raises and leaves no effect.\<close>

definition setrlimit :: "platform \<Rightarrow> rlimit \<Rightarrow> nat \<Rightarrow> nat \<Rightarrow> unit eff" where
  "setrlimit pf r soft hard tr =
     (case os_setrlimit pf r soft hard of
        Returns u \<Rightarrow> (Returns u, tr @ [Setrlimit r soft hard])
      | Raises e \<Rightarrow> (Raises e, tr))"

definition setup_resource_limits :: "platform \<Rightarrow> unit eff" where
  "setup_resource_limits pf tr =
     and_then (setrlimit pf RLIMIT_AS (256 * 1024 * 1024) (256 * 1024 * 1024) tr)
       (\<lambda>_. setrlimit pf RLIMIT_CPU 60 60)"

text \<open>The two shapes of the result envelope, as the dict literals of the source.\<close>

definition ok_envelope :: "pyval \<Rightarrow> pyval" where
  "ok_envelope v = PDict [(''ok'', PBool True), (''result'', v)]"

definition error_envelope :: "string \<Rightarrow> pyval" where
  "error_envelope msg = PDict [(''ok'', PBool False), (''error'', PStr msg)]"

text \<open>Lines 91 to 102: looking for \<open>Tools\<close>, calling \<open>run\<close>, cancelling the alarm.\<close>

definition resolve_entry :: "platform \<Rightarrow> (string \<times> builtin) list \<Rightarrow> namespace \<Rightarrow> pyval \<Rightarrow> pyval eff" where
  "resolve_entry pf bs module params tr =
     and_then
       (case module of
          Namespace (Some tools) \<Rightarrow>
            and_then (run_ucode pf bs tools (tr @ [CallTools]))
              (\<lambda>tool_instance tr.
                 case tool_instance of
                   Instance (Some run) \<Rightarrow>
                     run_ucode pf bs (call_expanded pf run params) (tr @ [CallRun params])
                 | Instance None \<Rightarrow> (Returns (PStr ''Tool instance created''), tr))
        | Namespace None \<Rightarrow> (Returns (PStr ''Code executed successfully''), tr))
       (\<lambda>result tr. (Returns (ok_envelope result), tr @ [Alarm 0]))"

text \<open>
  Line 88: \<open>exec\<close> runs a code object, and raises \<open>TypeError\<close> for any other value it
  is given here.
\<close>

definition exec_compiled :: "platform \<Rightarrow> (string \<times> builtin) list \<Rightarrow> compiled \<Rightarrow> namespace eff" where
  "exec_compiled pf bs compiled_code tr =
     (case compiled_code of
        CodeObject unit \<Rightarrow> run_ucode pf bs unit tr
      | _ \<Rightarrow> (Raises (Exception (fault_text pf ExecArgument)), tr))"

text \<open>Lines 68 to 102: the body of the \<open>try\<close> statement.\<close>

definition try_block :: "platform \<Rightarrow> string \<Rightarrow> pyval \<Rightarrow> pyval eff" where
  "try_block pf code_content params tr =
     and_then (setup_resource_limits pf tr)
       (\<lambda>_ tr.
          let tr = tr @ [SignalHandler];
              tr = tr @ [Alarm 120];
              safe_globals = create_safe_globals
          in and_then (compile_restricted_exec pf code_content, tr @ [Compile code_content])
               (\<lambda>compiled_code tr.
                  if compiled_code = NoneValue
                  then (Returns (error_envelope ''Code compilation failed (restricted)''), tr)
                  else
                    and_then (exec_compiled pf (builtins_of safe_globals) compiled_code (tr @ [Exec]))
                      (\<lambda>module. resolve_entry pf (builtins_of safe_globals) module params)))"

text \<open>Lines 104 to 109: the \<open>except\<close> clauses, in the order of the source.\<close>

fun handlers :: "pyexc \<Rightarrow> pyval outcome" where
  "handlers (TimeoutError m) = Returns (error_envelope ''Execution timeout'')"
| "handlers (MemoryError m) = Returns (error_envelope ''Memory limit exceeded'')"
| "handlers (Exception m) = Returns (error_envelope (''Execution error: '' @ m))"
| "handlers (BaseException m) = Raises (BaseException m)"

text \<open>
  Lines 62 to 111. \<open>None\<close> for \<open>params\<close> becomes the empty dict; the \<open>finally\<close> clause
  cancels the alarm whatever the \<open>try\<close> statement did.
\<close>

definition execute_tool_code :: "platform \<Rightarrow> string \<Rightarrow> pyval \<Rightarrow> pyval eff" where
  "execute_tool_code pf code_content params tr =
     (let params = (if params = PNone then PDict [] else params)
      in case try_block pf code_content params tr of
           (Returns env, tr') \<Rightarrow> (Returns env, tr' @ [Alarm 0])
         | (Raises e, tr') \<Rightarrow> (handlers e, tr' @ [Alarm 0]))"

subsection \<open>The entry point\<close>

text \<open>What \<open>json.dumps\<close> accepts among the values of the model.\<close>

fun json_serializable :: "pyval \<Rightarrow> bool" where
  "json_serializable PNone = True"
| "json_serializable (PBool _) = True"
| "json_serializable (PInt _) = True"
| "json_serializable (PStr _) = True"
| "json_serializable (PList vs) = list_all json_serializable vs"
| "json_serializable (PDict kvs) = list_all json_serializable (map snd kvs)"
| "json_serializable (PSet _) = False"
| "json_serializable (PObject _) = False"

text \<open>\<open>print(json.dumps(v))\<close>: a \<open>TypeError\<close> for a value that cannot be encoded.\<close>

definition print_json :: "platform \<Rightarrow> pyval \<Rightarrow> unit eff" where
  "print_json pf v tr =
     (if json_serializable v then (Returns (), tr @ [PrintJson v])
      else (Raises (Exception (fault_text pf NotSerializable)), tr))"

text \<open>
  Lines 118 to 122. \<open>input\<close> is what \<open>json.loads(sys.stdin.read())\<close> gives: the parsed
  request, or the exception of a malformed one. Subscripting with \<open>'code'\<close> needs a dict
  that has the key; \<open>get\<close> gives the empty dict where \<open>'params'\<close> is missing.
\<close>

definition decode_request :: "platform \<Rightarrow> pyval outcome \<Rightarrow> (string \<times> pyval) outcome" where
  "decode_request pf input =
     (case input of
        Raises e \<Rightarrow> Raises e
      | Returns (PDict input_data) \<Rightarrow>
          (case map_of input_data ''code'' of
             None \<Rightarrow> Raises (Exception (fault_text pf (KeyMissing ''code'')))
           | Some c \<Rightarrow>
               (case b64decode_utf8 pf c of
                  Raises e \<Rightarrow> Raises e
                | Returns code_content \<Rightarrow>
                    Returns (code_content,
                             case map_of input_data ''params'' of Some p \<Rightarrow> p | None \<Rightarrow> PDict [])))
      | Returns _ \<Rightarrow> Raises (Exception (fault_text pf BadSubscript)))"

text \<open>Lines 116 to 128: the body of the \<open>try\<close> statement of \<open>main\<close>.\<close>

definition main_try :: "platform \<Rightarrow> pyval outcome \<Rightarrow> unit eff" where
  "main_try pf input tr =
     and_then (decode_request pf input, tr)
       (\<lambda>(code_content, params) tr.
          and_then (execute_tool_code pf code_content params tr) (print_json pf))"

text \<open>How the process ends: with an exit status, or on an exception nothing caught.\<close>

datatype exit = Exit nat | Uncaught pyexc

text \<open>
  Lines 114 to 133. Falling off the end of \<open>main\<close> is exit status 0; the \<open>except\<close> clause
  prints its own envelope and leaves through \<open>sys.exit(1)\<close>.
\<close>

definition main :: "platform \<Rightarrow> pyval outcome \<Rightarrow> exit \<times> event list" where
  "main pf input =
     (case main_try pf input [] of
        (Returns _, tr) \<Rightarrow> (Exit 0, tr)
      | (Raises (BaseException m), tr) \<Rightarrow> (Uncaught (BaseException m), tr)
      | (Raises e, tr) \<Rightarrow>
          (Exit 1, tr @ [PrintJson (error_envelope (''Runner error: '' @ str_exc e))]))"

section \<open>Notions used by the properties\<close>

text \<open>
  What submitted code gives when it runs with the capability set of the runner. The
  outcome does not depend on the log it starts from, see \<open>run_ucode_split\<close>.
\<close>

definition sandboxed :: "platform \<Rightarrow> 'r ucode \<Rightarrow> 'r outcome" where
  "sandboxed pf u = fst (run_ucode pf (builtins_of create_safe_globals) u [])"

fun is_print :: "event \<Rightarrow> bool" where
  "is_print (Print _) = True"
| "is_print _ = False"

fun is_print_json :: "event \<Rightarrow> bool" where
  "is_print_json (PrintJson _) = True"
| "is_print_json _ = False"

text \<open>The effects that set a ceiling: an accepted limit, and arming the alarm.\<close>

fun is_limit :: "event \<Rightarrow> bool" where
  "is_limit (Setrlimit _ _ _) = True"
| "is_limit (Alarm n) = (0 < n)"
| "is_limit _ = False"

definition limits_applied :: "event list \<Rightarrow> event list" where
  "limits_applied tr = filter is_limit tr"

text \<open>
  The effects that run submitted code or come from it: the calls of \<open>exec\<close>, of
  \<open>Tools\<close> and of \<open>run\<close>, and what the code prints.
\<close>

fun is_user_code :: "event \<Rightarrow> bool" where
  "is_user_code Exec = True"
| "is_user_code CallTools = True"
| "is_user_code (CallRun _) = True"
| "is_user_code (Print _) = True"
| "is_user_code _ = False"

text \<open>What submitted code prints while it runs with the capability set of the runner.\<close>

definition printed :: "platform \<Rightarrow> 'r ucode \<Rightarrow> event list" where
  "printed pf u = snd (run_ucode pf (builtins_of create_safe_globals) u [])"

text \<open>An effect that sets no ceiling and is not the runner's own output.\<close>

definition benign :: "event \<Rightarrow> bool" where
  "benign e = (\<not> is_limit e \<and> \<not> is_print_json e)"

text \<open>Whether the compiler handed back a code object, the one value \<open>exec\<close> runs.\<close>

fun is_code_object :: "compiled outcome \<Rightarrow> bool" where
  "is_code_object (Returns (CodeObject _)) = True"
| "is_code_object _ = False"

text \<open>Whether \<open>except Exception\<close> catches the exception.\<close>

fun is_exception :: "pyexc \<Rightarrow> bool" where
  "is_exception (BaseException _) = False"
| "is_exception _ = True"


text \<open>
  The invariant of the result envelope: a dict whose \<open>ok\<close> is a boolean, with \<open>result\<close>
  and no \<open>error\<close> when it is true, with a string \<open>error\<close> and no \<open>result\<close> when it is
  false.
\<close>

definition well_formed_envelope :: "pyval \<Rightarrow> bool" where
  "well_formed_envelope env =
     (case env of
        PDict d \<Rightarrow>
          (case map_of d ''ok'' of
             Some (PBool True) \<Rightarrow> map_of d ''result'' \<noteq> None \<and> map_of d ''error'' = None
           | Some (PBool False) \<Rightarrow>
               (case map_of d ''error'' of Some (PStr _) \<Rightarrow> True | _ \<Rightarrow> False)
               \<and> map_of d ''result'' = None
           | _ \<Rightarrow> False)
      | _ \<Rightarrow> False)"

section \<open>Sample requests\<close>

text \<open>
  A platform for the examples, describing the program as it is shipped. It accepts every
  limit; its \<open>compile_restricted_exec\<close> gives the \<open>CompileResult\<close> tuple for every
  source, as RestrictedPython does; it decodes the base64 texts of the sources below. The
  examples call no uninterpreted built-in. The texts of a missing key and of \<open>exec\<close> are
  CPython's; the others shorten CPython's, which depend on its version and on the name of
  the function called.
\<close>

fun sample_fault_text :: "fault \<Rightarrow> string" where
  "sample_fault_text (NameNotDefined n) = ''name '' @ n @ '' is not defined''"
| "sample_fault_text NotAMapping = ''argument after ** must be a mapping''"
| "sample_fault_text NotCallable = ''object is not callable''"
| "sample_fault_text (UnexpectedKeyword k) = ''got an unexpected keyword argument '' @ k"
| "sample_fault_text (MultipleValues k) = ''got multiple values for argument '' @ k"
| "sample_fault_text (MissingArgument k) = ''missing 1 required positional argument: '' @ k"
| "sample_fault_text (KeyMissing k) = [CHR 0x27] @ k @ [CHR 0x27]"
| "sample_fault_text BadSubscript = ''object is not subscriptable''"
| "sample_fault_text NotSerializable = ''Object is not JSON serializable''"
| "sample_fault_text ExecArgument = ''exec() arg 1 must be a string, bytes or code object''"

definition sample_builtin :: "builtin \<Rightarrow> pyval list \<Rightarrow> pyval outcome" where
  "sample_builtin b args = Raises (Exception ''not interpreted'')"

text \<open>The submission of \<open>test_safe_code_works\<close> in \<open>test_sandbox.py\<close>, lines 76 to 80.\<close>

definition safe_code :: string where
  "safe_code =
     [CHR 0x0A] @ ''class Tools:'' @
     [CHR 0x0A] @ ''    def run(self):'' @
     [CHR 0x0A] @ ''        return '' @ [CHR 0x22] @ ''Hello, safe world!'' @ [CHR 0x22] @
     [CHR 0x0A]"

text \<open>The submission of \<open>test_timeout_enforced\<close>, lines 101 to 107.\<close>

definition infinite_loop :: string where
  "infinite_loop =
     [CHR 0x0A] @ ''class Tools:'' @
     [CHR 0x0A] @ ''    def run(self):'' @
     [CHR 0x0A] @ ''        while True:'' @
     [CHR 0x0A] @ ''            pass'' @
     [CHR 0x0A] @ ''        return '' @ [CHR 0x22] @ ''never reached'' @ [CHR 0x22] @
     [CHR 0x0A]"

text \<open>Base64 texts and the sources they encode.\<close>

definition sample_sources :: "(string \<times> string) list" where
  "sample_sources =
     [(''CmNsYXNzIFRvb2xzOgogICAgZGVmIHJ1bihzZWxmKToKICAgICAgICByZXR1cm4gIkhlbGxvLCBzYWZlIHdvcmxkISIK'',
       safe_code),
      (''CmNsYXNzIFRvb2xzOgogICAgZGVmIHJ1bihzZWxmKToKICAgICAgICB3aGlsZSBUcnVlOgogICAgICAgICAgICBwYXNzCiAgICAgICAgcmV0dXJuICJuZXZlciByZWFjaGVkIgo='',
       infinite_loop),
      (''cHJpbnQoMSk='',
       ''print(1)''),
      (''Y2xhc3MgVG9vbHM6IHJ1biA9IGxhbWJkYSBzZWxmOiA0Mg=='',
       ''class Tools: run = lambda self: 42''),
      (''Y2xhc3MgVG9vbHM6IHJ1biA9IGxhbWJkYSBzZWxmLCB4OiB4'',
       ''class Tools: run = lambda self, x: x''),
      (''Y2xhc3MgVG9vbHM6IHJ1biA9IGxhbWJkYSBzZWxmLCAqKmt3OiA0Mg=='',
       ''class Tools: run = lambda self, **kw: 42'')]"

definition sample_platform :: platform where
  "sample_platform =
     \<lparr> os_setrlimit = (\<lambda>r soft hard. Returns ()),
       compile_restricted_exec = (\<lambda>src. Returns CompileResult),
       pure_builtin = sample_builtin,
       fault_text = sample_fault_text,
       b64decode_utf8 =
         (\<lambda>v. case v of
                PStr s \<Rightarrow>
                  (case map_of sample_sources s of
                     Some src \<Rightarrow> Returns src
                   | None \<Rightarrow> Raises (Exception ''Incorrect padding''))
              | _ \<Rightarrow> Raises (Exception ''argument should be a bytes-like object or ASCII string'')) \<rparr>"

text \<open>The same platform, except that it refuses to set any limit.\<close>

definition refusing_platform :: platform where
  "refusing_platform =
     sample_platform
       \<lparr> os_setrlimit :=
           (\<lambda>r soft hard. Raises (Exception ''not allowed to raise maximum limit'')) \<rparr>"

text \<open>The parsed request \<open>{"code": b64}\<close>, and \<open>{"code": b64, "params": p}\<close>.\<close>

definition request :: "string \<Rightarrow> pyval outcome" where
  "request b64 = Returns (PDict [(''code'', PStr b64)])"

definition request_with :: "string \<Rightarrow> pyval \<Rightarrow> pyval outcome" where
  "request_with b64 p = Returns (PDict [(''code'', PStr b64), (''params'', p)])"

section \<open>Basic facts\<close>

lemmas runner_defs = main_def main_try_def decode_request_def and_then_def execute_tool_code_def
  try_block_def exec_compiled_def setup_resource_limits_def setrlimit_def print_json_def
  resolve_entry_def
  create_safe_globals_def builtins_of_def ok_envelope_def error_envelope_def timeout_handler_def
  py_max_def py_min_def keyword_fault_def List.map_filter_def sandboxed_def

lemmas sample_defs = request_def request_with_def sample_platform_def refusing_platform_def
  sample_sources_def sample_builtin_def safe_code_def infinite_loop_def

lemma and_then_Returns [simp]: "and_then (Returns a, tr) k = k a tr"
  by (simp add: and_then_def)

lemma and_then_Raises [simp]: "and_then (Raises e, tr) k = (Raises e, tr)"
  by (simp add: and_then_def)

text \<open>A built-in appends to the log, and only calls of \<open>print\<close>.\<close>

lemma call_builtin_split:
  "call_builtin pf b args tr = (fst (call_builtin pf b args []), tr @ snd (call_builtin pf b args []))"
  by (cases b) simp_all

lemma call_builtin_prints: "list_all is_print (snd (call_builtin pf b args []))"
  by (cases b) simp_all

text \<open>So does submitted code, whatever it does.\<close>

lemma run_ucode_split:
  "run_ucode pf bs u tr = (fst (run_ucode pf bs u []), tr @ snd (run_ucode pf bs u []))"
proof (induction u arbitrary: tr)
  case (Finish r)
  show ?case by simp
next
  case Interrupted
  show ?case by simp
next
  case (CallBuiltin name args k)
  show ?case
  proof (cases "map_of bs name")
    case None
    then show ?thesis
      using CallBuiltin.IH [OF rangeI, of "Raises (Exception (fault_text pf (NameNotDefined name)))" tr]
      by simp
  next
    case (Some b)
    obtain r ws where c: "call_builtin pf b args [] = (r, ws)"
      by (cases "call_builtin pf b args []")
    have c': "call_builtin pf b args tr = (r, tr @ ws)"
      using call_builtin_split [of pf b args tr] c by simp
    show ?thesis
      using Some c c' CallBuiltin.IH [OF rangeI, of r "tr @ ws"] CallBuiltin.IH [OF rangeI, of r ws]
      by simp
  qed
qed

lemma run_ucode_prints: "list_all is_print (snd (run_ucode pf bs u []))"
proof (induction u)
  case (Finish r)
  show ?case by simp
next
  case Interrupted
  show ?case by simp
next
  case (CallBuiltin name args k)
  show ?case
  proof (cases "map_of bs name")
    case None
    then show ?thesis
      using CallBuiltin.IH [OF rangeI, of "Raises (Exception (fault_text pf (NameNotDefined name)))"]
      by simp
  next
    case (Some b)
    obtain r ws where c: "call_builtin pf b args [] = (r, ws)"
      by (cases "call_builtin pf b args []")
    have "list_all is_print ws"
      using call_builtin_prints [of pf b args] c by simp
    then show ?thesis
      using Some c CallBuiltin.IH [OF rangeI, of r] run_ucode_split [of pf bs "k r" ws]
      by (simp add: split_beta)
  qed
qed

lemma run_sandboxed:
  "run_ucode pf (builtins_of create_safe_globals) u tr = (sandboxed pf u, tr @ printed pf u)"
  using run_ucode_split [of pf "builtins_of create_safe_globals" u tr]
  by (simp add: sandboxed_def printed_def)

lemma printed_prints: "list_all is_print (printed pf u)"
  by (simp add: printed_def run_ucode_prints)

lemma print_benign: "is_print e \<Longrightarrow> benign e"
  by (cases e) (simp_all add: benign_def)

lemma printed_benign: "list_all benign (printed pf u)"
  using printed_prints [of pf u] by (simp add: list_all_iff print_benign)

lemma benign_simps [simp]:
  "benign Exec" "benign CallTools" "benign (CallRun p)" "benign (Alarm 0)"
  by (simp_all add: benign_def)

lemma resolve_entry_trace:
  "\<exists>ws. snd (resolve_entry pf (builtins_of create_safe_globals) m p tr) = tr @ ws \<and> list_all benign ws"
  by (auto simp: resolve_entry_def and_then_def run_sandboxed printed_benign
           split: namespace.split option.split outcome.split tools_instance.split)

lemma setup_resource_limits_cases:
  "setup_resource_limits pf tr =
     (case os_setrlimit pf RLIMIT_AS 268435456 268435456 of
        Raises e \<Rightarrow> (Raises e, tr)
      | Returns _ \<Rightarrow>
          (case os_setrlimit pf RLIMIT_CPU 60 60 of
             Raises e \<Rightarrow> (Raises e, tr @ [Setrlimit RLIMIT_AS 268435456 268435456])
           | Returns _ \<Rightarrow>
               (Returns (), tr @ [Setrlimit RLIMIT_AS 268435456 268435456, Setrlimit RLIMIT_CPU 60 60])))"
  by (simp add: setup_resource_limits_def setrlimit_def split: outcome.split)

lemma try_block_trace:
  "snd (try_block pf c p tr) = tr
   \<or> snd (try_block pf c p tr) = tr @ [Setrlimit RLIMIT_AS 268435456 268435456]
   \<or> (\<exists>ws. snd (try_block pf c p tr) =
              tr @ [Setrlimit RLIMIT_AS 268435456 268435456, Setrlimit RLIMIT_CPU 60 60,
                    SignalHandler, Alarm 120, Compile c] @ ws
            \<and> list_all benign ws)"
proof (cases "setup_resource_limits pf tr")
  case (Pair r tr1)
  show ?thesis
  proof (cases r)
    case (Raises e)
    with Pair show ?thesis
      by (auto simp: try_block_def setup_resource_limits_cases split: outcome.splits)
  next
    case (Returns u)
    with Pair have tr1: "tr1 = tr @ [Setrlimit RLIMIT_AS 268435456 268435456, Setrlimit RLIMIT_CPU 60 60]"
      by (auto simp: setup_resource_limits_cases split: outcome.splits)
    show ?thesis
    proof (cases "compile_restricted_exec pf c")
      case (Raises e)
      with Pair Returns tr1 show ?thesis by (simp add: try_block_def)
    next
      case (Returns compiled)
      note comp = Returns
      show ?thesis
      proof (cases compiled)
        case NoneValue
        with Pair \<open>r = Returns u\<close> comp tr1 show ?thesis by (simp add: try_block_def)
      next
        case CompileResult
        with Pair \<open>r = Returns u\<close> comp tr1 show ?thesis
          by (simp add: try_block_def exec_compiled_def)
      next
        case (CodeObject unit)
        show ?thesis
        proof (cases "sandboxed pf unit")
          case (Raises e)
          with Pair \<open>r = Returns u\<close> comp tr1 CodeObject show ?thesis
            by (simp add: try_block_def exec_compiled_def run_sandboxed printed_benign)
        next
          case (Returns m)
          obtain ws where ws: "snd (resolve_entry pf (builtins_of create_safe_globals) m p
              (tr1 @ [SignalHandler, Alarm 120, Compile c, Exec] @ printed pf unit)) =
              (tr1 @ [SignalHandler, Alarm 120, Compile c, Exec] @ printed pf unit) @ ws"
              "list_all benign ws"
            using resolve_entry_trace by blast
          with Pair \<open>r = Returns u\<close> comp tr1 CodeObject Returns
          show ?thesis
            by (simp add: try_block_def exec_compiled_def run_sandboxed printed_benign)
        qed
      qed
    qed
  qed
qed

lemma resolve_entry_returns:
  "fst (resolve_entry pf (builtins_of create_safe_globals) m p tr) = Returns env \<Longrightarrow>
     \<exists>v. env = ok_envelope v"
  by (auto simp: resolve_entry_def and_then_def run_sandboxed
           split: namespace.splits option.splits outcome.splits tools_instance.splits)

lemma try_block_returns:
  "fst (try_block pf c p tr) = Returns env \<Longrightarrow>
     (\<exists>v. env = ok_envelope v) \<or> env = error_envelope ''Code compilation failed (restricted)''"
  by (auto simp: try_block_def exec_compiled_def and_then_def run_sandboxed Let_def
           dest: resolve_entry_returns
           split: prod.splits compiled.splits outcome.splits if_splits)

lemma execute_returns:
  "fst (execute_tool_code pf c p tr) = Returns env \<Longrightarrow>
     (\<exists>v. env = ok_envelope v) \<or> (\<exists>m. env = error_envelope m)"
proof -
  assume a: "fst (execute_tool_code pf c p tr) = Returns env"
  obtain r tr' where t: "try_block pf c (if p = PNone then PDict [] else p) tr = (r, tr')"
    by (cases "try_block pf c (if p = PNone then PDict [] else p) tr")
  show ?thesis
  proof (cases r)
    case (Returns env')
    with a t have "env' = env" by (simp add: execute_tool_code_def)
    with Returns t try_block_returns [of pf c "if p = PNone then PDict [] else p" tr env]
    show ?thesis by auto
  next
    case (Raises e)
    with a t have "handlers e = Returns env" by (simp add: execute_tool_code_def)
    then show ?thesis by (cases e) auto
  qed
qed

lemma ok_envelope_well_formed: "well_formed_envelope (ok_envelope v)"
  by (simp add: well_formed_envelope_def ok_envelope_def)

lemma error_envelope_well_formed: "well_formed_envelope (error_envelope m)"
  by (simp add: well_formed_envelope_def error_envelope_def)

lemma execute_well_formed:
  "fst (execute_tool_code pf c p tr) = Returns env \<Longrightarrow> well_formed_envelope env"
  using execute_returns [of pf c p tr env]
  by (auto simp: ok_envelope_well_formed error_envelope_well_formed)

lemma benign_not_json: "list_all benign ws \<Longrightarrow> PrintJson v \<notin> set ws"
  by (auto simp: list_all_iff benign_def)

lemma execute_no_json:
  "PrintJson v \<in> set (snd (execute_tool_code pf c p tr)) \<Longrightarrow> PrintJson v \<in> set tr"
proof -
  let ?p = "if p = PNone then PDict [] else p"
  assume a: "PrintJson v \<in> set (snd (execute_tool_code pf c p tr))"
  have e: "snd (execute_tool_code pf c p tr) = snd (try_block pf c ?p tr) @ [Alarm 0]"
    by (simp add: execute_tool_code_def split: prod.split outcome.split)
  from try_block_trace [of pf c ?p tr] a show ?thesis
    unfolding e by (auto dest: benign_not_json)
qed

lemma main_unfold:
  "main pf input =
     (case decode_request pf input of
        Raises e \<Rightarrow>
          (case e of
             BaseException m \<Rightarrow> (Uncaught e, [])
           | _ \<Rightarrow> (Exit 1, [PrintJson (error_envelope (''Runner error: '' @ str_exc e))]))
      | Returns (c, p) \<Rightarrow>
          (case execute_tool_code pf c p [] of
             (Returns env, tr) \<Rightarrow>
               if json_serializable env then (Exit 0, tr @ [PrintJson env])
               else (Exit 1, tr @ [PrintJson (error_envelope
                                     (''Runner error: '' @ fault_text pf NotSerializable))])
           | (Raises e, tr) \<Rightarrow>
               (case e of
                  BaseException m \<Rightarrow> (Uncaught e, tr)
                | _ \<Rightarrow> (Exit 1, tr @ [PrintJson (error_envelope (''Runner error: '' @ str_exc e))]))))"
  by (simp add: main_def main_try_def print_json_def and_then_def
           split: outcome.split prod.split pyexc.split)

lemma benign_no_limit: "list_all benign ws \<Longrightarrow> filter is_limit ws = []"
proof (induction ws)
  case Nil
  show ?case by simp
next
  case (Cons e ws)
  then show ?case by (simp add: benign_def)
qed

lemma execute_trace_shape:
  "snd (execute_tool_code pf c p []) = [Alarm 0]
   \<or> snd (execute_tool_code pf c p []) = [Setrlimit RLIMIT_AS 268435456 268435456, Alarm 0]
   \<or> (\<exists>R. snd (execute_tool_code pf c p []) =
            [Setrlimit RLIMIT_AS 268435456 268435456, Setrlimit RLIMIT_CPU 60 60,
             SignalHandler, Alarm 120, Compile c] @ R
          \<and> filter is_limit R = [])"
proof -
  let ?p = "if p = PNone then PDict [] else p"
  have e: "snd (execute_tool_code pf c p []) = snd (try_block pf c ?p []) @ [Alarm 0]"
    by (simp add: execute_tool_code_def split: prod.split outcome.split)
  from try_block_trace [of pf c ?p "[]"]
  consider (none) "snd (try_block pf c ?p []) = []"
    | (one) "snd (try_block pf c ?p []) = [Setrlimit RLIMIT_AS 268435456 268435456]"
    | (all) ws where "snd (try_block pf c ?p []) =
              [Setrlimit RLIMIT_AS 268435456 268435456, Setrlimit RLIMIT_CPU 60 60,
               SignalHandler, Alarm 120, Compile c] @ ws" "list_all benign ws"
    by (elim disjE exE conjE) simp_all
  then show ?thesis
  proof cases
    case none
    with e show ?thesis by simp
  next
    case one
    with e show ?thesis by simp
  next
    case all
    from all(2) have "filter is_limit (ws @ [Alarm 0]) = []"
      by (simp add: benign_no_limit)
    moreover from e all(1) have "snd (execute_tool_code pf c p []) =
            [Setrlimit RLIMIT_AS 268435456 268435456, Setrlimit RLIMIT_CPU 60 60,
             SignalHandler, Alarm 120, Compile c] @ (ws @ [Alarm 0])"
      by simp
    ultimately show ?thesis by blast
  qed
qed

lemma main_trace_shape:
  "(filter is_limit (snd (main pf input)) = [] \<and> filter is_user_code (snd (main pf input)) = [])
   \<or> (\<exists>R. snd (main pf input) = Setrlimit RLIMIT_AS 268435456 268435456 # R
          \<and> filter is_limit R = [] \<and> filter is_user_code R = [])
   \<or> (\<exists>c R. snd (main pf input) =
            [Setrlimit RLIMIT_AS 268435456 268435456, Setrlimit RLIMIT_CPU 60 60,
             SignalHandler, Alarm 120, Compile c] @ R
          \<and> filter is_limit R = [])"
proof (cases "decode_request pf input")
  case (Raises e)
  then have "filter is_limit (snd (main pf input)) = [] \<and> filter is_user_code (snd (main pf input)) = []"
    by (cases e) (simp_all add: main_unfold)
  then show ?thesis by (rule disjI1)
next
  case (Returns cp)
  obtain c p where cp: "cp = (c, p)" by (cases cp)
  obtain r tr1 where x: "execute_tool_code pf c p [] = (r, tr1)"
    by (cases "execute_tool_code pf c p []")
  have "\<exists>J. snd (main pf input) = tr1 @ J \<and> filter is_limit J = [] \<and> filter is_user_code J = []"
  proof (cases r)
    case (Returns env1)
    have "snd (main pf input) = tr1 @ [PrintJson env1]
          \<or> snd (main pf input) = tr1 @ [PrintJson (error_envelope
                (''Runner error: '' @ fault_text pf NotSerializable))]"
      using Returns x cp \<open>decode_request pf input = Returns cp\<close>
      by (simp add: main_unfold)
    then show ?thesis by auto
  next
    case (Raises e)
    have "snd (main pf input) = tr1 @ []
          \<or> snd (main pf input) = tr1 @ [PrintJson (error_envelope (''Runner error: '' @ str_exc e))]"
      using Raises x cp \<open>decode_request pf input = Returns cp\<close>
      by (cases e) (simp_all add: main_unfold)
    then show ?thesis by auto
  qed
  then obtain J where J: "snd (main pf input) = tr1 @ J" "filter is_limit J = []"
      "filter is_user_code J = []"
    by blast
  from execute_trace_shape [of pf c p] x
  consider (none) "tr1 = [Alarm 0]"
    | (one) "tr1 = [Setrlimit RLIMIT_AS 268435456 268435456, Alarm 0]"
    | (all) R where "tr1 = [Setrlimit RLIMIT_AS 268435456 268435456, Setrlimit RLIMIT_CPU 60 60,
             SignalHandler, Alarm 120, Compile c] @ R" "filter is_limit R = []"
    by auto
  then show ?thesis
  proof cases
    case none
    with J have "filter is_limit (snd (main pf input)) = []
                 \<and> filter is_user_code (snd (main pf input)) = []"
      by simp
    then show ?thesis by (rule disjI1)
  next
    case one
    with J have "snd (main pf input) = Setrlimit RLIMIT_AS 268435456 268435456 # (Alarm 0 # J)
          \<and> filter is_limit (Alarm 0 # J) = [] \<and> filter is_user_code (Alarm 0 # J) = []"
      by simp
    then show ?thesis by blast
  next
    case all
    with J have "snd (main pf input) =
            [Setrlimit RLIMIT_AS 268435456 268435456, Setrlimit RLIMIT_CPU 60 60,
             SignalHandler, Alarm 120, Compile c] @ (R @ J)
          \<and> filter is_limit (R @ J) = []"
      by simp
    then show ?thesis by blast
  qed
qed

lemma split_after_prefix:
  "pre @ e # post = P @ R \<Longrightarrow> \<forall>x\<in>set P. \<not> Q x \<Longrightarrow> Q e \<Longrightarrow>
     \<exists>pre'. pre = P @ pre' \<and> R = pre' @ e # post"
proof (induction P arbitrary: pre)
  case Nil
  then show ?case by simp
next
  case (Cons a P)
  show ?case
  proof (cases pre)
    case Nil
    with Cons.prems show ?thesis by auto
  next
    case (Cons b pre0)
    with Cons.prems Cons.IH [of pre0] show ?thesis by auto
  qed
qed

lemma filter_empty_prefix: "filter Q (xs @ y # ys) = [] \<Longrightarrow> filter Q xs = []"
  by (simp split: if_splits)



lemma compiled_cases_no_code:
  "\<not> is_code_object (compile_restricted_exec pf c) \<Longrightarrow>
     (\<exists>e. compile_restricted_exec pf c = Raises e)
     \<or> compile_restricted_exec pf c = Returns NoneValue
     \<or> compile_restricted_exec pf c = Returns CompileResult"
proof (cases "compile_restricted_exec pf c")
  case (Returns x)
  assume "\<not> is_code_object (compile_restricted_exec pf c)"
  with Returns show ?thesis by (cases x) simp_all
next
  case (Raises e)
  then show ?thesis by simp
qed

lemma try_block_no_code:
  assumes "\<not> is_code_object (compile_restricted_exec pf c)"
  shows "filter is_stdout (snd (try_block pf c p [])) = []
       \<and> (\<forall>env. fst (try_block pf c p []) = Returns env \<longrightarrow>
              env = error_envelope ''Code compilation failed (restricted)'')"
proof -
  obtain r tr1 where s: "setup_resource_limits pf [] = (r, tr1)"
    by (cases "setup_resource_limits pf []")
  then have tr1: "filter is_stdout tr1 = []"
    by (auto simp: setup_resource_limits_cases split: outcome.splits)
  show ?thesis
  proof (cases r)
    case (Raises e)
    with s tr1 show ?thesis by (simp add: try_block_def)
  next
    case (Returns u)
    from compiled_cases_no_code [OF assms] s tr1 Returns show ?thesis
      by (auto simp: try_block_def exec_compiled_def)
  qed
qed

lemma execute_no_code:
  assumes "\<not> is_code_object (compile_restricted_exec pf c)"
  shows "filter is_stdout (snd (execute_tool_code pf c p [])) = []
       \<and> (\<forall>env. fst (execute_tool_code pf c p []) = Returns env \<longrightarrow> (\<exists>m. env = error_envelope m))"
proof -
  let ?p = "if p = PNone then PDict [] else p"
  obtain r tr1 where t: "try_block pf c ?p [] = (r, tr1)"
    by (cases "try_block pf c ?p []")
  from try_block_no_code [OF assms, of ?p] t
  have a: "filter is_stdout tr1 = []"
    and b: "\<forall>env. r = Returns env \<longrightarrow> env = error_envelope ''Code compilation failed (restricted)''"
    by simp_all
  show ?thesis
  proof (cases r)
    case (Returns env)
    with t a b show ?thesis by (auto simp: execute_tool_code_def)
  next
    case (Raises e)
    with t a show ?thesis by (cases e) (auto simp: execute_tool_code_def)
  qed
qed



section \<open>The alarm is cancelled on every path\<close>

text \<open>
  Claim C5. Whatever the platform, the source and the parameters, and whichever way the
  \<open>try\<close> statement of \<open>execute_tool_code\<close> is left (a return from its body, one of the
  three \<open>except\<close> clauses, or an exception that none of them catches), the last effect of
  \<open>execute_tool_code\<close> is cancelling the alarm with \<open>signal.alarm(0)\<close>.
\<close>

theorem alarm_always_disarmed:
  "last (snd (execute_tool_code pf code_content params tr)) = Alarm 0"
  by (simp add: execute_tool_code_def Let_def split: prod.split outcome.split)

section \<open>The result envelope\<close>

text \<open>
  Claim C2. Every envelope that \<open>execute_tool_code\<close> returns, and every envelope that
  \<open>main\<close> writes (the one it got from \<open>execute_tool_code\<close> or the one of its own
  \<open>except\<close> clause), has a boolean \<open>ok\<close> and exactly one of \<open>result\<close> and \<open>error\<close>:
  \<open>result\<close> and no \<open>error\<close> when \<open>ok\<close> is true, a string \<open>error\<close> and no \<open>result\<close>
  when it is false.
\<close>

theorem envelope_invariant:
  "(fst (execute_tool_code pf code_content params tr) = Returns env \<longrightarrow> well_formed_envelope env)
   \<and> (PrintJson env' \<in> set (snd (main pf input)) \<longrightarrow> well_formed_envelope env')"
proof (intro conjI impI)
  assume "fst (execute_tool_code pf code_content params tr) = Returns env"
  then show "well_formed_envelope env" by (rule execute_well_formed)
next
  assume a: "PrintJson env' \<in> set (snd (main pf input))"
  show "well_formed_envelope env'"
  proof (cases "decode_request pf input")
    case (Raises e)
    with a show ?thesis
      by (cases e) (auto simp: main_unfold error_envelope_well_formed)
  next
    case (Returns cp)
    obtain c p where cp: "cp = (c, p)" by (cases cp)
    obtain r tr1 where x: "execute_tool_code pf c p [] = (r, tr1)"
      by (cases "execute_tool_code pf c p []")
    from execute_no_json [of env' pf c p "[]"] x have nj: "PrintJson env' \<notin> set tr1"
      by auto
    show ?thesis
    proof (cases r)
      case (Returns env1)
      with x have "well_formed_envelope env1"
        using execute_well_formed [of pf c p "[]" env1] by simp
      with a nj x Returns \<open>decode_request pf input = Returns cp\<close> cp show ?thesis
        by (auto simp: main_unfold error_envelope_well_formed split: if_splits)
    next
      case (Raises e)
      with a nj x \<open>decode_request pf input = Returns cp\<close> cp show ?thesis
        by (cases e) (auto simp: main_unfold error_envelope_well_formed)
    qed
  qed
qed

text \<open>
  An instance on each side: the submission of \<open>test_safe_code_works\<close>, and a request
  that is not JSON.
\<close>

theorem envelope_invariant_witness:
  "fst (execute_tool_code sample_platform safe_code (PDict []) [])
     = Returns (error_envelope ''Execution error: exec() arg 1 must be a string, bytes or code object'')
   \<and> well_formed_envelope
        (error_envelope ''Execution error: exec() arg 1 must be a string, bytes or code object'')
   \<and> PrintJson (error_envelope ''Runner error: Expecting value: line 1 column 1 (char 0)'')
        \<in> set (snd (main sample_platform (Raises (Exception ''Expecting value: line 1 column 1 (char 0)''))))
   \<and> well_formed_envelope (error_envelope ''Runner error: Expecting value: line 1 column 1 (char 0)'')"
  using envelope_invariant [of sample_platform safe_code "PDict []" "[]"
      "error_envelope ''Execution error: exec() arg 1 must be a string, bytes or code object''"
      "error_envelope ''Runner error: Expecting value: line 1 column 1 (char 0)''"
      "Raises (Exception ''Expecting value: line 1 column 1 (char 0)'')"]
  by (simp add: runner_defs sample_defs)

section \<open>The binding of \<open>min\<close>\<close>

text \<open>
  Claim C7. In the capability set of \<open>create_safe_globals\<close> the name \<open>min\<close> is bound to
  the built-in \<open>max\<close>: submitted code that calls \<open>min([1, 2])\<close> gets 2, the largest
  element, where the built-in \<open>min\<close> gives 1. Every other entry binds its name to the
  built-in of that name.
\<close>

theorem min_bound_to_max:
  "map_of (builtins_of create_safe_globals) ''min'' = Some Py_max
   \<and> sandboxed pf (CallBuiltin ''min'' [PList [PInt 1, PInt 2]] Finish) = Returns (PInt 2)
   \<and> fst (call_builtin pf Py_min [PList [PInt 1, PInt 2]] tr) = Returns (PInt 1)
   \<and> (\<forall>(n, b) \<in> set (builtins_of create_safe_globals). n \<noteq> ''min'' \<longrightarrow> builtin_name b = n)"
  by (simp add: builtins_of_def create_safe_globals_def sandboxed_def py_max_def py_min_def)

text \<open>The entry \<open>max\<close> is one of the others, and it is bound to the built-in of its name.\<close>

theorem min_bound_to_max_witness:
  "(''max'', Py_max) \<in> set (builtins_of create_safe_globals)
   \<and> ''max'' \<noteq> ''min''
   \<and> builtin_name Py_max = ''max''
   \<and> map_of (builtins_of create_safe_globals) ''min'' = Some Py_max
   \<and> sandboxed sample_platform (CallBuiltin ''min'' [PList [PInt 1, PInt 2]] Finish) = Returns (PInt 2)"
proof -
  have m: "(''max'', Py_max) \<in> set (builtins_of create_safe_globals)"
    by (simp add: builtins_of_def create_safe_globals_def)
  from min_bound_to_max [of sample_platform "[]"] m show ?thesis
    by auto
qed

section \<open>A limit the platform refuses\<close>

text \<open>
  Claim C1 says that a failure of \<open>setrlimit\<close> is fatal and is not turned into an ordinary
  \<open>{"ok": false, ...}\<close> response with exit status 0. The call is inside the \<open>try\<close>
  statement, and what \<open>setrlimit\<close> raises (\<open>ValueError\<close>, \<open>OSError\<close>) is caught by
  \<open>except Exception\<close>: on a platform that refuses the limits, the request for \<open>print(1)\<close>
  ends with exit status 0 and an ordinary error envelope on standard output.
\<close>

theorem limiter_failure_counterexample:
  "main refusing_platform (request ''cHJpbnQoMSk='')
     = (Exit 0,
        [Alarm 0,
         PrintJson (PDict [(''ok'', PBool False),
                           (''error'', PStr ''Execution error: not allowed to raise maximum limit'')])])"
  by (simp add: runner_defs sample_defs)

text \<open>
  Claim C1, amended. If a call of \<open>setrlimit\<close> raises, the runner neither compiles nor
  executes the submitted source: apart from a memory limit that was already accepted, its
  only effects are cancelling the alarm and printing the envelope. The failure is reported
  like any other exception of the \<open>try\<close> statement, as
  \<open>{"ok": false, "error": "Execution error: ..."}\<close> with exit status 0.
\<close>

theorem limiter_failure_reported:
  assumes "fst (setup_resource_limits pf []) = Raises (Exception m)"
    and "decode_request pf input = Returns (code_content, params)"
  shows "fst (execute_tool_code pf code_content params [])
           = Returns (error_envelope (''Execution error: '' @ m))
       \<and> (main pf input
             = (Exit 0, [Alarm 0, PrintJson (error_envelope (''Execution error: '' @ m))])
          \<or> main pf input
             = (Exit 0, [Setrlimit RLIMIT_AS 268435456 268435456, Alarm 0,
                         PrintJson (error_envelope (''Execution error: '' @ m))]))"
proof -
  obtain tr1 where s: "setup_resource_limits pf [] = (Raises (Exception m), tr1)"
    using assms(1) by (cases "setup_resource_limits pf []") auto
  then have tr1: "tr1 = [] \<or> tr1 = [Setrlimit RLIMIT_AS 268435456 268435456]"
    by (auto simp: setup_resource_limits_cases split: outcome.splits)
  have x: "execute_tool_code pf code_content params []
             = (Returns (error_envelope (''Execution error: '' @ m)), tr1 @ [Alarm 0])"
    using s by (simp add: execute_tool_code_def try_block_def)
  have j: "json_serializable (error_envelope (''Execution error: '' @ m))"
    by (simp add: error_envelope_def)
  show ?thesis
    using x j tr1 assms(2) by (auto simp: main_unfold)
qed

text \<open>The platform that refuses every limit, with the request for \<open>print(1)\<close>.\<close>

theorem limiter_failure_reported_witness:
  "fst (setup_resource_limits refusing_platform [])
     = Raises (Exception ''not allowed to raise maximum limit'')
   \<and> decode_request refusing_platform (request ''cHJpbnQoMSk='') = Returns (''print(1)'', PDict [])
   \<and> fst (execute_tool_code refusing_platform ''print(1)'' (PDict []) [])
       = Returns (error_envelope ''Execution error: not allowed to raise maximum limit'')
   \<and> fst (main refusing_platform (request ''cHJpbnQoMSk='')) = Exit 0"
proof -
  have h1: "fst (setup_resource_limits refusing_platform [])
              = Raises (Exception ''not allowed to raise maximum limit'')"
    by (simp add: runner_defs sample_defs)
  have h2: "decode_request refusing_platform (request ''cHJpbnQoMSk='')
              = Returns (''print(1)'', PDict [])"
    by (simp add: runner_defs sample_defs)
  from limiter_failure_reported [OF h1 h2] h1 h2 show ?thesis
    by auto
qed

section \<open>The resource ceilings\<close>

text \<open>
  Claim C9. Whatever the platform and the request, the ceilings the process sets are, in
  this order and each at most once, the memory limit of 256 MiB (soft and hard), the CPU
  limit of 60 seconds (soft and hard) and the alarm of 120 seconds, with no other value
  ever; and at every moment submitted code runs or prints, exactly these three have been
  set before, once each. The request is the only input of \<open>main\<close>: no flag or environment
  variable is read.
\<close>

theorem limits_fixed_and_applied_once:
  "(limits_applied (snd (main pf input)) = []
    \<or> limits_applied (snd (main pf input)) = [Setrlimit RLIMIT_AS (256 * 1024 * 1024) (256 * 1024 * 1024)]
    \<or> limits_applied (snd (main pf input))
        = [Setrlimit RLIMIT_AS (256 * 1024 * 1024) (256 * 1024 * 1024),
           Setrlimit RLIMIT_CPU 60 60, Alarm 120])
   \<and> (\<forall>pre e post. snd (main pf input) = pre @ e # post \<and> is_user_code e \<longrightarrow>
         limits_applied pre
           = [Setrlimit RLIMIT_AS (256 * 1024 * 1024) (256 * 1024 * 1024),
              Setrlimit RLIMIT_CPU 60 60, Alarm 120])"
proof (intro conjI allI impI)
  from main_trace_shape [of pf input]
  consider (none) "filter is_limit (snd (main pf input)) = []"
    | (one) R where "snd (main pf input) = Setrlimit RLIMIT_AS 268435456 268435456 # R"
        "filter is_limit R = []"
    | (all) c R where "snd (main pf input) =
            [Setrlimit RLIMIT_AS 268435456 268435456, Setrlimit RLIMIT_CPU 60 60,
             SignalHandler, Alarm 120, Compile c] @ R" "filter is_limit R = []"
    by (elim disjE exE conjE) simp_all
  then show "limits_applied (snd (main pf input)) = []
    \<or> limits_applied (snd (main pf input)) = [Setrlimit RLIMIT_AS (256 * 1024 * 1024) (256 * 1024 * 1024)]
    \<or> limits_applied (snd (main pf input))
        = [Setrlimit RLIMIT_AS (256 * 1024 * 1024) (256 * 1024 * 1024),
           Setrlimit RLIMIT_CPU 60 60, Alarm 120]"
  proof cases
    case none
    then show ?thesis by (simp add: limits_applied_def)
  next
    case one
    then show ?thesis by (simp add: limits_applied_def)
  next
    case all
    then show ?thesis by (simp add: limits_applied_def)
  qed
next
  fix pre e post
  assume a: "snd (main pf input) = pre @ e # post \<and> is_user_code e"
  then have u: "filter is_user_code (snd (main pf input)) \<noteq> []" by simp
  let ?P = "[Setrlimit RLIMIT_AS 268435456 268435456, Setrlimit RLIMIT_CPU 60 60,
             SignalHandler, Alarm 120]"
  from main_trace_shape [of pf input]
  consider (quiet) "filter is_user_code (snd (main pf input)) = []"
    | (one) R0 where "snd (main pf input) = Setrlimit RLIMIT_AS 268435456 268435456 # R0"
        "filter is_user_code R0 = []"
    | (all) c R where "snd (main pf input) = (?P @ [Compile c]) @ R" "filter is_limit R = []"
    by (elim disjE exE conjE) simp_all
  then obtain c R where R0: "snd (main pf input) = (?P @ [Compile c]) @ R" "filter is_limit R = []"
  proof cases
    case quiet
    with u show ?thesis by simp
  next
    case one
    with u show ?thesis by simp
  next
    case all
    then show ?thesis by (rule that)
  qed
  with a have R: "pre @ e # post = (?P @ [Compile c]) @ R" "filter is_limit R = []"
    by simp_all
  have "\<forall>x\<in>set (?P @ [Compile c]). \<not> is_user_code x" by simp
  with R(1) a obtain pre' where p: "pre = (?P @ [Compile c]) @ pre'" "R = pre' @ e # post"
    using split_after_prefix [of pre e post "?P @ [Compile c]" R is_user_code] by blast
  from R(2) p(2) have "filter is_limit pre' = []"
    using filter_empty_prefix [of is_limit pre' e post] by simp
  with p(1) show "limits_applied pre
           = [Setrlimit RLIMIT_AS (256 * 1024 * 1024) (256 * 1024 * 1024),
              Setrlimit RLIMIT_CPU 60 60, Alarm 120]"
    by (simp add: limits_applied_def)
qed

text \<open>The submission \<open>print(1)\<close>, split at the call of \<open>exec\<close>.\<close>

theorem limits_fixed_and_applied_once_witness:
  "snd (main sample_platform (request ''cHJpbnQoMSk=''))
     = [Setrlimit RLIMIT_AS 268435456 268435456, Setrlimit RLIMIT_CPU 60 60, SignalHandler,
        Alarm 120, Compile ''print(1)'']
       @ Exec # [Alarm 0,
                 PrintJson (error_envelope
                   ''Execution error: exec() arg 1 must be a string, bytes or code object'')]
   \<and> is_user_code Exec
   \<and> limits_applied [Setrlimit RLIMIT_AS 268435456 268435456, Setrlimit RLIMIT_CPU 60 60,
        SignalHandler, Alarm 120, Compile ''print(1)'']
     = [Setrlimit RLIMIT_AS (256 * 1024 * 1024) (256 * 1024 * 1024),
        Setrlimit RLIMIT_CPU 60 60, Alarm 120]"
proof -
  have h: "snd (main sample_platform (request ''cHJpbnQoMSk=''))
     = [Setrlimit RLIMIT_AS 268435456 268435456, Setrlimit RLIMIT_CPU 60 60, SignalHandler,
        Alarm 120, Compile ''print(1)'']
       @ Exec # [Alarm 0,
                 PrintJson (error_envelope
                   ''Execution error: exec() arg 1 must be a string, bytes or code object'')]"
    by (simp add: runner_defs sample_defs)
  have u: "is_user_code Exec" by simp
  from limits_fixed_and_applied_once [of sample_platform "request ''cHJpbnQoMSk=''",
      THEN conjunct2, rule_format,
      of "[Setrlimit RLIMIT_AS 268435456 268435456, Setrlimit RLIMIT_CPU 60 60, SignalHandler,
           Alarm 120, Compile ''print(1)'']" Exec
         "[Alarm 0,
           PrintJson (error_envelope
             ''Execution error: exec() arg 1 must be a string, bytes or code object'')]",
      OF conjI [OF h u]]
  have "limits_applied [Setrlimit RLIMIT_AS 268435456 268435456, Setrlimit RLIMIT_CPU 60 60,
        SignalHandler, Alarm 120, Compile ''print(1)'']
     = [Setrlimit RLIMIT_AS (256 * 1024 * 1024) (256 * 1024 * 1024),
        Setrlimit RLIMIT_CPU 60 60, Alarm 120]" .
  with h u show ?thesis by (intro conjI)
qed

section \<open>Resolving the entry point\<close>

text \<open>
  Claim C3 describes what lines 91 to 102 are written to do: a submission that binds
  \<open>Tools\<close> with a \<open>run\<close> operation is answered \<open>ok\<close> true with what \<open>run\<close> returns, and
  \<open>test_safe_code_works\<close> expects \<open>Hello, safe world!\<close> for its submission. The program
  does not get there. Line 79 keeps the \<open>CompileResult\<close> tuple and line 88 hands it to
  \<open>exec\<close>, which raises \<open>TypeError\<close>: the submission of the test is answered \<open>ok\<close> false,
  without \<open>Tools\<close> being looked for or \<open>run\<close> being called.
\<close>

theorem safe_code_answer:
  "main sample_platform
       (request ''CmNsYXNzIFRvb2xzOgogICAgZGVmIHJ1bihzZWxmKToKICAgICAgICByZXR1cm4gIkhlbGxvLCBzYWZlIHdvcmxkISIK'')
     = (Exit 0,
        [Setrlimit RLIMIT_AS 268435456 268435456, Setrlimit RLIMIT_CPU 60 60, SignalHandler,
         Alarm 120, Compile safe_code, Exec, Alarm 0,
         PrintJson (PDict [(''ok'', PBool False),
                           (''error'', PStr ''Execution error: exec() arg 1 must be a string, bytes or code object'')])])"
  by (simp add: runner_defs sample_defs)

section \<open>The timeout\<close>

text \<open>
  Claim C8 says that an execution unwound by the alarm, such as a submission that loops
  for ever, is answered \<open>ok\<close> false with an error text that contains \<open>timeout\<close>, and
  \<open>test_timeout_enforced\<close> expects this for its submission. The program answers that
  submission at once with the \<open>TypeError\<close> of \<open>exec\<close>: the loop never starts, the alarm
  never goes off, and the error text says nothing of a timeout.
\<close>

theorem infinite_loop_answer:
  "main sample_platform
       (request ''CmNsYXNzIFRvb2xzOgogICAgZGVmIHJ1bihzZWxmKToKICAgICAgICB3aGlsZSBUcnVlOgogICAgICAgICAgICBwYXNzCiAgICAgICAgcmV0dXJuICJuZXZlciByZWFjaGVkIgo='')
     = (Exit 0,
        [Setrlimit RLIMIT_AS 268435456 268435456, Setrlimit RLIMIT_CPU 60 60, SignalHandler,
         Alarm 120, Compile infinite_loop, Exec, Alarm 0,
         PrintJson (PDict [(''ok'', PBool False),
                           (''error'', PStr ''Execution error: exec() arg 1 must be a string, bytes or code object'')])])"
  by (simp add: runner_defs sample_defs)

section \<open>The exit status\<close>

text \<open>
  Claim C4. When decoding the request raises (the request is not JSON, has no \<open>code\<close>, or
  its \<open>code\<close> does not decode), \<open>main\<close> writes the envelope
  \<open>{"ok": false, "error": "Runner error: ..."}\<close> and ends with exit status 1. When the
  request decodes and the compiler hands back no code object, as RestrictedPython never
  does, every envelope that \<open>execute_tool_code\<close> returns is written and the exit status
  is 0; the \<open>except\<close> clause of \<open>main\<close>, with its exit status 1, is not reached.
\<close>

theorem exit_code:
  "(decode_request pf input = Raises e \<and> is_exception e \<longrightarrow>
      main pf input = (Exit 1, [PrintJson (error_envelope (''Runner error: '' @ str_exc e))]))
   \<and> (decode_request pf input = Returns (code_content, params)
        \<and> \<not> is_code_object (compile_restricted_exec pf code_content) \<longrightarrow>
      (\<forall>env tr. execute_tool_code pf code_content params [] = (Returns env, tr) \<longrightarrow>
         main pf input = (Exit 0, tr @ [PrintJson env]))
      \<and> fst (main pf input) \<noteq> Exit 1)"
proof -
  have first: "main pf input = (Exit 1, [PrintJson (error_envelope (''Runner error: '' @ str_exc e))])"
    if "decode_request pf input = Raises e \<and> is_exception e"
    using that by (cases e) (simp_all add: main_unfold)
  have second: "(\<forall>env tr. execute_tool_code pf code_content params [] = (Returns env, tr) \<longrightarrow>
         main pf input = (Exit 0, tr @ [PrintJson env]))
      \<and> fst (main pf input) \<noteq> Exit 1"
    if a: "decode_request pf input = Returns (code_content, params)
        \<and> \<not> is_code_object (compile_restricted_exec pf code_content)"
  proof -
    obtain r tr1 where x: "execute_tool_code pf code_content params [] = (r, tr1)"
      by (cases "execute_tool_code pf code_content params []")
    from a execute_no_code [of pf code_content params] x
    have env: "\<forall>env. r = Returns env \<longrightarrow> json_serializable env"
      by (auto simp: error_envelope_def)
    show ?thesis
    proof (cases r)
      case (Returns env1)
      with a x env show ?thesis by (simp add: main_unfold)
    next
      case (Raises e1)
      have "handlers e1' \<noteq> Raises e1" if "is_exception e1" for e1'
        using that by (cases e1'; cases e1) simp_all
      with x Raises have "\<not> is_exception e1"
        by (auto simp: execute_tool_code_def split: prod.splits outcome.splits)
      with a x Raises show ?thesis by (cases e1) (simp_all add: main_unfold)
    qed
  qed
  from first second show ?thesis by blast
qed

text \<open>
  A request that is not JSON, a request without \<open>code\<close>, and the request for \<open>print(1)\<close>.
\<close>

theorem exit_code_witness:
  "decode_request sample_platform (Raises (Exception ''Expecting value: line 1 column 1 (char 0)''))
     = Raises (Exception ''Expecting value: line 1 column 1 (char 0)'')
   \<and> is_exception (Exception ''Expecting value: line 1 column 1 (char 0)'')
   \<and> main sample_platform (Raises (Exception ''Expecting value: line 1 column 1 (char 0)''))
     = (Exit 1, [PrintJson (error_envelope ''Runner error: Expecting value: line 1 column 1 (char 0)'')])
   \<and> decode_request sample_platform (Returns (PDict [(''params'', PDict [])]))
     = Raises (Exception ([CHR 0x27] @ ''code'' @ [CHR 0x27]))
   \<and> main sample_platform (Returns (PDict [(''params'', PDict [])]))
     = (Exit 1, [PrintJson (error_envelope
                   (''Runner error: '' @ [CHR 0x27] @ ''code'' @ [CHR 0x27]))])
   \<and> decode_request sample_platform (request ''cHJpbnQoMSk='') = Returns (''print(1)'', PDict [])
   \<and> \<not> is_code_object (compile_restricted_exec sample_platform ''print(1)'')
   \<and> main sample_platform (request ''cHJpbnQoMSk='')
     = (Exit 0,
        [Setrlimit RLIMIT_AS 268435456 268435456, Setrlimit RLIMIT_CPU 60 60, SignalHandler,
         Alarm 120, Compile ''print(1)'', Exec, Alarm 0]
        @ [PrintJson (error_envelope
             ''Execution error: exec() arg 1 must be a string, bytes or code object'')])"
proof -
  have d0: "decode_request sample_platform (Raises (Exception ''Expecting value: line 1 column 1 (char 0)''))
              = Raises (Exception ''Expecting value: line 1 column 1 (char 0)'') \<and> is_exception (Exception ''Expecting value: line 1 column 1 (char 0)'')"
    by (simp add: decode_request_def)
  have d1: "decode_request sample_platform (Returns (PDict [(''params'', PDict [])]))
              = Raises (Exception ([CHR 0x27] @ ''code'' @ [CHR 0x27]))
              \<and> is_exception (Exception ([CHR 0x27] @ ''code'' @ [CHR 0x27]))"
    by (simp add: decode_request_def sample_platform_def)
  have d2: "decode_request sample_platform (request ''cHJpbnQoMSk='') = Returns (''print(1)'', PDict [])
              \<and> \<not> is_code_object (compile_restricted_exec sample_platform ''print(1)'')"
    by (simp add: runner_defs sample_defs)
  have x2: "execute_tool_code sample_platform ''print(1)'' (PDict []) []
              = (Returns (error_envelope
                   ''Execution error: exec() arg 1 must be a string, bytes or code object''),
                 [Setrlimit RLIMIT_AS 268435456 268435456, Setrlimit RLIMIT_CPU 60 60,
                  SignalHandler, Alarm 120, Compile ''print(1)'', Exec, Alarm 0])"
    by (simp add: runner_defs sample_defs)
  note t0 = exit_code [of sample_platform "Raises (Exception ''Expecting value: line 1 column 1 (char 0)'')"
      "Exception ''Expecting value: line 1 column 1 (char 0)''", THEN conjunct1, rule_format, OF d0]
  note t1 = exit_code [of sample_platform "Returns (PDict [(''params'', PDict [])])"
      "Exception ([CHR 0x27] @ ''code'' @ [CHR 0x27])", THEN conjunct1, rule_format, OF d1]
  note t2 = exit_code [of sample_platform "request ''cHJpbnQoMSk=''" _ "''print(1)''" "PDict []",
      THEN conjunct2, rule_format, OF d2, THEN conjunct1, rule_format, OF x2]
  from d0 d1 d2 t0 t1 t2 show ?thesis by simp
qed

section \<open>What is written to standard output\<close>

text \<open>
  Claim C6. Whenever the process ends with an exit status and the compiler hands back no
  code object for the source of the request, standard output holds exactly one JSON
  object, the envelope, and writing it is the last effect of the process. This is so also
  for a submission that calls \<open>print\<close>: the submission is never executed.
\<close>

theorem single_json_object:
  assumes "fst (main pf input) = Exit n"
    and "\<forall>c p. decode_request pf input = Returns (c, p) \<longrightarrow>
           \<not> is_code_object (compile_restricted_exec pf c)"
  shows "\<exists>env. stdout (snd (main pf input)) = [PrintJson env]
           \<and> last (snd (main pf input)) = PrintJson env"
proof (cases "decode_request pf input")
  case (Raises e)
  with assms(1) show ?thesis
    by (cases e) (auto simp: main_unfold stdout_def)
next
  case (Returns cp)
  obtain c p where cp: "cp = (c, p)" by (cases cp)
  with Returns assms(2) have nc: "\<not> is_code_object (compile_restricted_exec pf c)"
    by simp
  obtain r tr1 where x: "execute_tool_code pf c p [] = (r, tr1)"
    by (cases "execute_tool_code pf c p []")
  from execute_no_code [OF nc, of p] x have q: "filter is_stdout tr1 = []"
    by simp
  have "\<exists>env. snd (main pf input) = tr1 @ [PrintJson env]"
  proof (cases r)
    case (Returns env1)
    with x cp \<open>decode_request pf input = Returns cp\<close> show ?thesis
      by (auto simp: main_unfold)
  next
    case (Raises e)
    with assms(1) x cp \<open>decode_request pf input = Returns cp\<close> show ?thesis
      by (cases e) (auto simp: main_unfold)
  qed
  with q show ?thesis by (auto simp: stdout_def)
qed

text \<open>The submission \<open>print(1)\<close>: its output is the envelope alone.\<close>

theorem single_json_object_witness:
  "fst (main sample_platform (request ''cHJpbnQoMSk='')) = Exit 0
   \<and> \<not> is_code_object (compile_restricted_exec sample_platform ''print(1)'')
   \<and> stdout (snd (main sample_platform (request ''cHJpbnQoMSk='')))
       = [PrintJson (error_envelope
            ''Execution error: exec() arg 1 must be a string, bytes or code object'')]
   \<and> (\<exists>env. stdout (snd (main sample_platform (request ''cHJpbnQoMSk=''))) = [PrintJson env]
          \<and> last (snd (main sample_platform (request ''cHJpbnQoMSk=''))) = PrintJson env)"
proof -
  have h1: "fst (main sample_platform (request ''cHJpbnQoMSk='')) = Exit 0"
    by (simp add: runner_defs sample_defs)
  have h2: "\<forall>c p. decode_request sample_platform (request ''cHJpbnQoMSk='') = Returns (c, p) \<longrightarrow>
          \<not> is_code_object (compile_restricted_exec sample_platform c)"
    by (simp add: sample_platform_def)
  have v: "stdout (snd (main sample_platform (request ''cHJpbnQoMSk='')))
       = [PrintJson (error_envelope
            ''Execution error: exec() arg 1 must be a string, bytes or code object'')]"
    by (simp add: runner_defs sample_defs stdout_def)
  have h3: "\<not> is_code_object (compile_restricted_exec sample_platform ''print(1)'')"
    by (simp add: sample_platform_def)
  from single_json_object [OF h1 h2] h1 h3 v show ?thesis by (intro conjI)
qed

section \<open>Parameters that do not fit the entry operation\<close>



end
